theory Spec2Isabelle
  imports Main "HOL-Library.Word"
begin

unbundle bit_operations_syntax

section \<open>Process memory and the module handle\<close>

text \<open>
  \<^verbatim>\<open>nt.cpp\<close> reads a loaded executable image through raw pointers. The address space
  is modelled as a partial map from 64-bit addresses to bytes: an address that is not
  mapped has no byte, and reading it is the access violation the processor would raise.
  Every read of the source is therefore a branch of the model that can fail, and the
  failure is carried as a value (\<open>Inl AccessViolation\<close>).

  The source is built for x64 only (it compares a thunk with
  \<^verbatim>\<open>reinterpret_cast<uint64_t>(targetFunction)\<close>), so pointers, \<^verbatim>\<open>size_t\<close> and the
  thunk entries are 64 bits wide and the headers are the 64-bit ones of \<^verbatim>\<open>winnt.h\<close>.
  Multi-byte fields are little-endian.
\<close>

type_synonym addr = "64 word"
type_synonym byte = "8 word"
type_synonym memory = "addr \<Rightarrow> byte option"

datatype fault = AccessViolation

definition read_u8 :: "memory \<Rightarrow> addr \<Rightarrow> byte option" where
  "read_u8 m a = m a"

definition read_u16 :: "memory \<Rightarrow> addr \<Rightarrow> 16 word option" where
  "read_u16 m a =
     (case read_u8 m a of None \<Rightarrow> None
      | Some b0 \<Rightarrow>
          (case read_u8 m (a + 1) of None \<Rightarrow> None
           | Some b1 \<Rightarrow> Some (ucast b0 OR push_bit 8 (ucast b1))))"

definition read_u32 :: "memory \<Rightarrow> addr \<Rightarrow> 32 word option" where
  "read_u32 m a =
     (case read_u16 m a of None \<Rightarrow> None
      | Some w0 \<Rightarrow>
          (case read_u16 m (a + 2) of None \<Rightarrow> None
           | Some w1 \<Rightarrow> Some (ucast w0 OR push_bit 16 (ucast w1))))"

definition read_u64 :: "memory \<Rightarrow> addr \<Rightarrow> 64 word option" where
  "read_u64 m a =
     (case read_u32 m a of None \<Rightarrow> None
      | Some d0 \<Rightarrow>
          (case read_u32 m (a + 4) of None \<Rightarrow> None
           | Some d1 \<Rightarrow> Some (ucast d0 OR push_bit 32 (ucast d1))))"

subsection \<open>Layout constants of the image format (\<^verbatim>\<open>winnt.h\<close>, 64-bit)\<close>

text \<open>
  The structure declarations come from the platform headers, not from the repository.
  Only the offsets of the fields that \<^verbatim>\<open>nt.cpp\<close> touches are needed.
\<close>

definition IMAGE_DOS_SIGNATURE :: "16 word" where
  "IMAGE_DOS_SIGNATURE = 0x5A4D"

definition off_e_lfanew :: addr where \<comment> \<open>\<^verbatim>\<open>IMAGE_DOS_HEADER::e_lfanew\<close>, a signed 32-bit field\<close>
  "off_e_lfanew = 0x3C"

definition off_NumberOfSections :: addr where \<comment> \<open>\<^verbatim>\<open>IMAGE_NT_HEADERS64::FileHeader.NumberOfSections\<close>\<close>
  "off_NumberOfSections = 6"

definition off_SizeOfOptionalHeader :: addr where \<comment> \<open>\<^verbatim>\<open>FileHeader.SizeOfOptionalHeader\<close>\<close>
  "off_SizeOfOptionalHeader = 20"

definition off_OptionalHeader :: addr where \<comment> \<open>\<^verbatim>\<open>offsetof(IMAGE_NT_HEADERS64, OptionalHeader)\<close>\<close>
  "off_OptionalHeader = 24"

definition off_AddressOfEntryPoint :: addr where \<comment> \<open>within the optional header\<close>
  "off_AddressOfEntryPoint = 16"

definition off_SizeOfImage :: addr where \<comment> \<open>within the optional header\<close>
  "off_SizeOfImage = 56"

definition off_DataDirectory :: addr where \<comment> \<open>within the optional header; 8 bytes an entry\<close>
  "off_DataDirectory = 112"

definition IMAGE_DIRECTORY_ENTRY_IMPORT :: addr where
  "IMAGE_DIRECTORY_ENTRY_IMPORT = 1"

definition IMAGE_DIRECTORY_ENTRY_TLS :: addr where
  "IMAGE_DIRECTORY_ENTRY_TLS = 9"

definition sizeof_IMAGE_SECTION_HEADER :: addr where
  "sizeof_IMAGE_SECTION_HEADER = 40"

definition off_AddressOfCallBacks :: addr where \<comment> \<open>\<^verbatim>\<open>IMAGE_TLS_DIRECTORY64::AddressOfCallBacks\<close>\<close>
  "off_AddressOfCallBacks = 24"

definition sizeof_IMAGE_IMPORT_DESCRIPTOR :: addr where
  "sizeof_IMAGE_IMPORT_DESCRIPTOR = 20"

definition off_OriginalFirstThunk :: addr where
  "off_OriginalFirstThunk = 0"

definition off_Name :: addr where
  "off_Name = 12"

definition off_FirstThunk :: addr where
  "off_FirstThunk = 16"

definition sizeof_IMAGE_THUNK_DATA :: addr where
  "sizeof_IMAGE_THUNK_DATA = 8"

definition PAGE_EXECUTE_READWRITE :: "32 word" where
  "PAGE_EXECUTE_READWRITE = 0x40"

text \<open>The address of \<^verbatim>\<open>DataDirectory[i].VirtualAddress\<close> in an optional header at \<open>opt\<close>.\<close>

definition DataDirectory_VirtualAddress :: "addr \<Rightarrow> addr \<Rightarrow> addr" where
  "DataDirectory_VirtualAddress opt i = opt + off_DataDirectory + 8 * i"

subsection \<open>The \<^verbatim>\<open>Library\<close> class\<close>

record Library =
  m_Module :: addr

definition GetHandle :: "Library \<Rightarrow> addr" where
  "GetHandle lib = m_Module lib"

definition GetPtr :: "Library \<Rightarrow> addr" where
  "GetPtr lib = m_Module lib"

definition GetDOSHeader :: "Library \<Rightarrow> addr" where
  "GetDOSHeader lib = GetPtr lib"

text \<open>
  \<^verbatim>\<open>m_Module != nullptr && GetDOSHeader()->e_magic == IMAGE_DOS_SIGNATURE\<close>: the
  conjunction short-circuits, so a null handle is never dereferenced.
\<close>

definition IsValid :: "memory \<Rightarrow> Library \<Rightarrow> fault + bool" where
  "IsValid m lib =
     (if m_Module lib = 0 then Inr False
      else (case read_u16 m (GetDOSHeader lib) of
              None \<Rightarrow> Inl AccessViolation
            | Some e_magic \<Rightarrow> Inr (e_magic = IMAGE_DOS_SIGNATURE)))"

definition GetNTHeaders :: "memory \<Rightarrow> Library \<Rightarrow> fault + addr" where
  "GetNTHeaders m lib =
     (case IsValid m lib of
        Inl e \<Rightarrow> Inl e
      | Inr valid \<Rightarrow>
          if \<not> valid then Inr 0
          else (case read_u32 m (GetDOSHeader lib + off_e_lfanew) of
                  None \<Rightarrow> Inl AccessViolation
                | Some e_lfanew \<Rightarrow> Inr (GetPtr lib + scast e_lfanew)))"

text \<open>\<^verbatim>\<open>&GetNTHeaders()->OptionalHeader\<close> only adds the field offset; nothing is read.\<close>

definition GetOptionalHeader :: "memory \<Rightarrow> Library \<Rightarrow> fault + addr" where
  "GetOptionalHeader m lib =
     (case IsValid m lib of
        Inl e \<Rightarrow> Inl e
      | Inr valid \<Rightarrow>
          if \<not> valid then Inr 0
          else (case GetNTHeaders m lib of
                  Inl e \<Rightarrow> Inl e
                | Inr nt \<Rightarrow> Inr (nt + off_OptionalHeader)))"

definition GetRelativeEntryPoint :: "memory \<Rightarrow> Library \<Rightarrow> fault + addr" where
  "GetRelativeEntryPoint m lib =
     (case IsValid m lib of
        Inl e \<Rightarrow> Inl e
      | Inr valid \<Rightarrow>
          if \<not> valid then Inr 0
          else (case GetNTHeaders m lib of
                  Inl e \<Rightarrow> Inl e
                | Inr nt \<Rightarrow>
                    (case read_u32 m (nt + off_OptionalHeader + off_AddressOfEntryPoint) of
                       None \<Rightarrow> Inl AccessViolation
                     | Some ep \<Rightarrow> Inr (ucast ep))))"

definition GetEntryPoint :: "memory \<Rightarrow> Library \<Rightarrow> fault + addr" where
  "GetEntryPoint m lib =
     (case IsValid m lib of
        Inl e \<Rightarrow> Inl e
      | Inr valid \<Rightarrow>
          if \<not> valid then Inr 0
          else (case GetRelativeEntryPoint m lib of
                  Inl e \<Rightarrow> Inl e
                | Inr rel \<Rightarrow> Inr (GetPtr lib + rel)))"

subsection \<open>Section headers\<close>

text \<open>
  \<^verbatim>\<open>IMAGE_FIRST_SECTION(nt)\<close> is the platform macro
  \<^verbatim>\<open>nt + offsetof(IMAGE_NT_HEADERS, OptionalHeader) + nt->FileHeader.SizeOfOptionalHeader\<close>:
  it reads one field of the file header.
\<close>

definition IMAGE_FIRST_SECTION :: "memory \<Rightarrow> addr \<Rightarrow> fault + addr" where
  "IMAGE_FIRST_SECTION m nt =
     (case read_u16 m (nt + off_SizeOfOptionalHeader) of
        None \<Rightarrow> Inl AccessViolation
      | Some size_opt \<Rightarrow> Inr (nt + off_OptionalHeader + ucast size_opt))"

text \<open>
  The \<^verbatim>\<open>for\<close> loop of \<^verbatim>\<open>GetSectionHeaders\<close>: the counter is a \<^verbatim>\<open>uint16_t\<close>, the bound
  is read from the file header at every test, the cursor advances by one section header a
  round, and a null cursor is skipped (the source prints a debug string there, which is
  not part of the result).
\<close>

function section_loop :: "memory \<Rightarrow> addr \<Rightarrow> 16 word \<Rightarrow> addr \<Rightarrow> addr list \<Rightarrow> fault + addr list" where
  "section_loop m nt i section headers =
     (case read_u16 m (nt + off_NumberOfSections) of
        None \<Rightarrow> Inl AccessViolation
      | Some n \<Rightarrow>
          if i < n
          then section_loop m nt (i + 1) (section + sizeof_IMAGE_SECTION_HEADER)
                 (if section \<noteq> 0 then headers @ [section] else headers)
          else Inr headers)"
  by pat_completeness auto
termination
proof (relation "measure (\<lambda>(m, nt, i, cur, headers). 2 ^ 16 - unat i)")
  show "wf (measure (\<lambda>(m, nt, i, cur, headers). 2 ^ 16 - unat (i :: 16 word)))"
    by simp
next
  fix m :: memory and nt :: addr and i :: "16 word" and cur :: addr
    and headers :: "addr list" and n :: "16 word"
  assume "i < n"
  then have "unat (i + 1) = unat i + 1"
    by (metis (no_types, lifting) add.commute add_0 inc_i inc_le
        unat_plus_simple unsigned_0 unsigned_1 word_gt_0)
  moreover have "unat i < 2 ^ 16"
    using unsigned_less [of i] by simp
  ultimately show "((m, nt, i + 1, cur + sizeof_IMAGE_SECTION_HEADER,
        if cur \<noteq> 0 then headers @ [cur] else headers),
       (m, nt, i, cur, headers))
      \<in> measure (\<lambda>(m, nt, i, cur, headers). 2 ^ 16 - unat i)"
    by simp
qed

text \<open>\<^verbatim>\<open>GetSectionHeaders\<close> has no validity test: it uses whatever \<^verbatim>\<open>GetNTHeaders\<close> returned.\<close>

definition GetSectionHeaders :: "memory \<Rightarrow> Library \<Rightarrow> fault + addr list" where
  "GetSectionHeaders m lib =
     (case GetNTHeaders m lib of
        Inl e \<Rightarrow> Inl e
      | Inr ntHeaders \<Rightarrow>
          (case IMAGE_FIRST_SECTION m ntHeaders of
             Inl e \<Rightarrow> Inl e
           | Inr section \<Rightarrow> section_loop m ntHeaders 0 section []))"

section \<open>The platform\<close>

text \<open>
  The operating system and the C++ runtime are outside \<^verbatim>\<open>nt.cpp\<close>. What the file asks
  of them is taken as a parameter: a record of functions, one for each call whose answer
  the code uses. A null result is the failure value of each handle- or pointer-returning
  call, as in the platform's own contract.

  \<^verbatim>\<open>GetProcAddress\<close> receives either a pointer to a name or, when the value is at most
  \<^verbatim>\<open>0xFFFF\<close>, an ordinal in the low word; the two readings are the constructors of
  \<open>proc_ref\<close>.
\<close>

datatype proc_ref = ByName string | ByOrdinal "16 word"

record platform =
  GetModuleHandleA :: "string \<Rightarrow> addr"
  GetProcAddress :: "addr \<Rightarrow> proc_ref \<Rightarrow> addr"
  GetModuleFileNameA :: "addr \<Rightarrow> string"
  ifstream_open :: "string \<Rightarrow> byte list option"
  parent_path :: "string \<Rightarrow> string"

text \<open>
  The calls whose effect stays in the process are recorded in a trace, oldest first.
  \<^verbatim>\<open>VirtualProtect\<close> carries the start address, the size and the requested protection.
\<close>

datatype api_call =
    VirtualProtect addr addr "32 word"
  | FreeLibrary addr

text \<open>
  A C function that is handed \<^verbatim>\<open>s.data()\<close> of a \<^verbatim>\<open>std::string\<close> sees the characters
  before the first NUL.
\<close>

definition c_str :: "string \<Rightarrow> string" where
  "c_str s = takeWhile (\<lambda>c. c \<noteq> CHR 0x00) s"

text \<open>\<^verbatim>\<open>Library(const std::string& name)\<close> and \<^verbatim>\<open>Library(HMODULE)\<close>.\<close>

definition Library_of_name :: "platform \<Rightarrow> string \<Rightarrow> Library" where
  "Library_of_name os name = \<lparr>m_Module = GetModuleHandleA os (c_str name)\<rparr>"

definition Library_of_handle :: "addr \<Rightarrow> Library" where
  "Library_of_handle handle = \<lparr>m_Module = handle\<rparr>"

text \<open>
  Modelled from the spec: \<^verbatim>\<open>GetProc\<close> is a template of \<^verbatim>\<open>nt.hpp\<close>, which is not among
  the sources. The specification gives it as the export resolver
  \<^verbatim>\<open>resolve_by_name(Module, symbol_name) -> optional address\<close>: the platform's lookup by
  name in the module of the handle, null when the symbol is not exported.
\<close>

definition GetProc :: "platform \<Rightarrow> Library \<Rightarrow> string \<Rightarrow> addr" where
  "GetProc os lib process = GetProcAddress os (m_Module lib) (ByName (c_str process))"

subsection \<open>Protection, paths, release\<close>

definition Unprotect :: "memory \<Rightarrow> Library \<Rightarrow> api_call list \<Rightarrow> fault + api_call list" where
  "Unprotect m lib trace =
     (case IsValid m lib of
        Inl e \<Rightarrow> Inl e
      | Inr valid \<Rightarrow>
          if \<not> valid then Inr trace
          else (case GetOptionalHeader m lib of
                  Inl e \<Rightarrow> Inl e
                | Inr opt \<Rightarrow>
                    (case read_u32 m (opt + off_SizeOfImage) of
                       None \<Rightarrow> Inl AccessViolation
                     | Some SizeOfImage \<Rightarrow>
                         Inr (trace @ [VirtualProtect (GetPtr lib) (ucast SizeOfImage)
                                         PAGE_EXECUTE_READWRITE]))))"

definition GetPath :: "platform \<Rightarrow> memory \<Rightarrow> Library \<Rightarrow> fault + string" where
  "GetPath os m lib =
     (case IsValid m lib of
        Inl e \<Rightarrow> Inl e
      | Inr valid \<Rightarrow>
          if \<not> valid then Inr []
          else Inr (GetModuleFileNameA os (m_Module lib)))"

text \<open>\<^verbatim>\<open>path.find_last_of(chars)\<close>: the last position holding one of the characters.\<close>

fun find_last_of :: "string \<Rightarrow> string \<Rightarrow> nat option" where
  "find_last_of [] chars = None"
| "find_last_of (c # cs) chars =
     (case find_last_of cs chars of
        Some pos \<Rightarrow> Some (Suc pos)
      | None \<Rightarrow> if c \<in> set chars then Some 0 else None)"

definition GetName :: "platform \<Rightarrow> memory \<Rightarrow> Library \<Rightarrow> fault + string" where
  "GetName os m lib =
     (case IsValid m lib of
        Inl e \<Rightarrow> Inl e
      | Inr valid \<Rightarrow>
          if \<not> valid then Inr []
          else (case GetPath os m lib of
                  Inl e \<Rightarrow> Inl e
                | Inr path \<Rightarrow>
                    (case find_last_of path [CHR ''/'', CHR 0x5C] of
                       None \<Rightarrow> Inr path
                     | Some pos \<Rightarrow> Inr (drop (pos + 1) path))))"

definition GetFolder :: "platform \<Rightarrow> memory \<Rightarrow> Library \<Rightarrow> fault + string" where
  "GetFolder os m lib =
     (case IsValid m lib of
        Inl e \<Rightarrow> Inl e
      | Inr valid \<Rightarrow>
          if \<not> valid then Inr []
          else (case GetPath os m lib of
                  Inl e \<Rightarrow> Inl e
                | Inr path \<Rightarrow> Inr (parent_path os path)))"

text \<open>
  \<^verbatim>\<open>Free\<close> is the one member that changes the object: it returns the new object and the
  lengthened trace.
\<close>

definition Free :: "memory \<Rightarrow> Library \<Rightarrow> api_call list \<Rightarrow> fault + Library \<times> api_call list" where
  "Free m lib trace =
     (case IsValid m lib of
        Inl e \<Rightarrow> Inl e
      | Inr valid \<Rightarrow>
          if valid then Inr (lib\<lparr>m_Module := 0\<rparr>, trace @ [FreeLibrary (m_Module lib)])
          else Inr (lib, trace))"

section \<open>Sentinel-terminated tables\<close>

text \<open>
  The three \<^verbatim>\<open>while\<close> loops of the file walk arrays that end at a zero entry. Nothing in
  the source bounds them, so each is a partial function: \<open>None\<close> is the run that never
  returns, \<open>Some (Inl AccessViolation)\<close> the run that leaves mapped memory, and
  \<open>Some (Inr r)\<close> the run that returns \<open>r\<close>.
\<close>

subsection \<open>TLS callbacks\<close>

partial_function (option) tls_loop :: "memory \<Rightarrow> addr \<Rightarrow> addr list \<Rightarrow> (fault + addr list) option" where
  "tls_loop m current callbacks =
     (case read_u64 m current of
        None \<Rightarrow> Some (Inl AccessViolation)
      | Some callback \<Rightarrow>
          if callback \<noteq> 0
          then tls_loop m (current + 8) (callbacks @ [callback])
          else Some (Inr callbacks))"

text \<open>
  \<^verbatim>\<open>GetTlsCallbacks\<close> has no validity test either: the optional header it dereferences is
  whatever \<^verbatim>\<open>GetOptionalHeader\<close> returned.
\<close>

definition GetTlsCallbacks :: "memory \<Rightarrow> Library \<Rightarrow> (fault + addr list) option" where
  "GetTlsCallbacks m lib =
     (case GetOptionalHeader m lib of
        Inl e \<Rightarrow> Some (Inl e)
      | Inr opt \<Rightarrow>
          (case read_u32 m (DataDirectory_VirtualAddress opt IMAGE_DIRECTORY_ENTRY_TLS) of
             None \<Rightarrow> Some (Inl AccessViolation)
           | Some virtualAddr \<Rightarrow>
               if virtualAddr = 0 then Some (Inr [])
               else (case read_u64 m (GetPtr lib + ucast virtualAddr + off_AddressOfCallBacks) of
                       None \<Rightarrow> Some (Inl AccessViolation)
                     | Some current \<Rightarrow> tls_loop m current [])))"

subsection \<open>The import address table\<close>

text \<open>
  \<^verbatim>\<open>_stricmp\<close> of the C runtime, in the "C" locale: both strings are compared byte by
  byte after mapping \<^verbatim>\<open>A\<close>..\<^verbatim>\<open>Z\<close> to lower case; the result is zero when they are equal
  and the difference of the first differing pair otherwise. The first string lies in the
  image and is read from memory; the second is the caller's \<^verbatim>\<open>moduleName.data()\<close>, whose
  terminating NUL is the end of the list.
\<close>

definition tolower :: "byte \<Rightarrow> byte" where
  "tolower c = (if 0x41 \<le> c \<and> c \<le> 0x5A then c + 0x20 else c)"

fun stricmp :: "memory \<Rightarrow> addr \<Rightarrow> string \<Rightarrow> fault + int" where
  "stricmp m p [] =
     (case read_u8 m p of
        None \<Rightarrow> Inl AccessViolation
      | Some c \<Rightarrow> Inr (uint (tolower c)))"
| "stricmp m p (d # ds) =
     (case read_u8 m p of
        None \<Rightarrow> Inl AccessViolation
      | Some c \<Rightarrow>
          if tolower c \<noteq> tolower (of_char d)
          then Inr (uint (tolower c) - uint (tolower (of_char d)))
          else stricmp m (p + 1) ds)"

text \<open>
  The inner loop of \<^verbatim>\<open>GetIATEntry\<close> over the two parallel thunk arrays. \<open>Some slot\<close> is
  the \<^verbatim>\<open>return\<close> from inside the loop, \<open>None\<close> the loop running to its end.
\<close>

partial_function (option) thunk_loop ::
  "platform \<Rightarrow> memory \<Rightarrow> Library \<Rightarrow> addr \<Rightarrow> addr \<Rightarrow> addr \<Rightarrow> (fault + addr option) option" where
  "thunk_loop os m otherModule targetFunction originalThunkData thunkData =
     (case read_u64 m originalThunkData of
        None \<Rightarrow> Some (Inl AccessViolation)
      | Some AddressOfData \<Rightarrow>
          if AddressOfData = 0 then Some (Inr None)
          else (case read_u64 m thunkData of
                  None \<Rightarrow> Some (Inl AccessViolation)
                | Some Function \<Rightarrow>
                    if Function = targetFunction then Some (Inr (Some thunkData))
                    else if AddressOfData AND 0xFFFFFFF \<le> 0xFFFF \<and>
                            GetProcAddress os (m_Module otherModule)
                              (ByOrdinal (ucast (AddressOfData AND 0xFFFFFFF))) = targetFunction
                    then Some (Inr (Some thunkData))
                    else thunk_loop os m otherModule targetFunction
                           (originalThunkData + sizeof_IMAGE_THUNK_DATA)
                           (thunkData + sizeof_IMAGE_THUNK_DATA)))"

text \<open>The outer loop over the import descriptors; the result is the returned pointer.\<close>

partial_function (option) import_loop ::
  "platform \<Rightarrow> memory \<Rightarrow> Library \<Rightarrow> string \<Rightarrow> Library \<Rightarrow> addr \<Rightarrow> addr \<Rightarrow> (fault + addr) option" where
  "import_loop os m lib moduleName otherModule targetFunction importDescriptor =
     (case read_u32 m (importDescriptor + off_Name) of
        None \<Rightarrow> Some (Inl AccessViolation)
      | Some Name \<Rightarrow>
          if Name = 0 then Some (Inr 0)
          else (case stricmp m (GetPtr lib + ucast Name) (c_str moduleName) of
                  Inl e \<Rightarrow> Some (Inl e)
                | Inr cmp \<Rightarrow>
                    if cmp = 0
                    then (case read_u32 m (importDescriptor + off_OriginalFirstThunk) of
                            None \<Rightarrow> Some (Inl AccessViolation)
                          | Some OriginalFirstThunk \<Rightarrow>
                              (case read_u32 m (importDescriptor + off_FirstThunk) of
                                 None \<Rightarrow> Some (Inl AccessViolation)
                               | Some FirstThunk \<Rightarrow>
                                   (case thunk_loop os m otherModule targetFunction
                                           (ucast OriginalFirstThunk + GetPtr lib)
                                           (ucast FirstThunk + GetPtr lib) of
                                      None \<Rightarrow> None
                                    | Some (Inl e) \<Rightarrow> Some (Inl e)
                                    | Some (Inr (Some slot)) \<Rightarrow> Some (Inr slot)
                                    | Some (Inr None) \<Rightarrow>
                                        import_loop os m lib moduleName otherModule targetFunction
                                          (importDescriptor + sizeof_IMAGE_IMPORT_DESCRIPTOR))))
                    else import_loop os m lib moduleName otherModule targetFunction
                           (importDescriptor + sizeof_IMAGE_IMPORT_DESCRIPTOR)))"

text \<open>
  \<^verbatim>\<open>GetIATEntry(const std::string&, const char*)\<close>. The null pointer is the "not found"
  result.
\<close>

definition GetIATEntry ::
  "platform \<Rightarrow> memory \<Rightarrow> Library \<Rightarrow> string \<Rightarrow> string \<Rightarrow> (fault + addr) option" where
  "GetIATEntry os m lib moduleName procName =
     (case IsValid m lib of
        Inl e \<Rightarrow> Some (Inl e)
      | Inr valid \<Rightarrow>
          if \<not> valid then Some (Inr 0)
          else (case IsValid m (Library_of_name os moduleName) of
                  Inl e \<Rightarrow> Some (Inl e)
                | Inr other_valid \<Rightarrow>
                    if \<not> other_valid then Some (Inr 0)
                    else if GetProc os (Library_of_name os moduleName) procName = 0
                    then Some (Inr 0)
                    else (case GetOptionalHeader m lib of
                            Inl e \<Rightarrow> Some (Inl e)
                          | Inr header \<Rightarrow>
                              if header = 0 then Some (Inr 0)
                              else (case read_u32 m (DataDirectory_VirtualAddress header
                                                       IMAGE_DIRECTORY_ENTRY_IMPORT) of
                                      None \<Rightarrow> Some (Inl AccessViolation)
                                    | Some VirtualAddress \<Rightarrow>
                                        import_loop os m lib moduleName
                                          (Library_of_name os moduleName)
                                          (GetProc os (Library_of_name os moduleName) procName)
                                          (GetPtr lib + ucast VirtualAddress)))))"

text \<open>\<^verbatim>\<open>GetIATEntry(const std::string&, const std::string&)\<close> passes \<^verbatim>\<open>procName.data()\<close> on.\<close>

definition GetIATEntry_string ::
  "platform \<Rightarrow> memory \<Rightarrow> Library \<Rightarrow> string \<Rightarrow> string \<Rightarrow> (fault + addr) option" where
  "GetIATEntry_string os m lib moduleName procName =
     GetIATEntry os m lib moduleName (c_str procName)"

section \<open>The checksum\<close>

text \<open>
  The \<^verbatim>\<open>while (file.get(byte))\<close> loop: every byte of the file, cast to \<^verbatim>\<open>uint8_t\<close>, is
  added to a \<^verbatim>\<open>uint32_t\<close>.
\<close>

fun checksum_loop :: "byte list \<Rightarrow> 32 word \<Rightarrow> 32 word" where
  "checksum_loop [] checksum = checksum"
| "checksum_loop (b # bs) checksum = checksum_loop bs (checksum + ucast b)"

definition GetChecksum :: "platform \<Rightarrow> memory \<Rightarrow> Library \<Rightarrow> fault + 32 word" where
  "GetChecksum os m lib =
     (case GetPath os m lib of
        Inl e \<Rightarrow> Inl e
      | Inr path \<Rightarrow>
          (case ifstream_open os path of
             None \<Rightarrow> Inr 0
           | Some bytes \<Rightarrow> Inr (checksum_loop bytes 0)))"

section \<open>Tables as the loader lays them out\<close>

text \<open>
  The statements about the loops speak of an image whose tables are well formed. These
  predicates say what that means for a piece of memory: which values stand where. They
  are about the memory alone and do not mention the functions under study.
\<close>

text \<open>An array of pointer-sized entries, one after the other, from \<open>a\<close> on.\<close>

fun u64_array_at :: "memory \<Rightarrow> addr \<Rightarrow> addr list \<Rightarrow> bool" where
  "u64_array_at m a [] = True"
| "u64_array_at m a (x # xs) = (read_u64 m a = Some x \<and> u64_array_at m (a + 8) xs)"

text \<open>A NUL-terminated string: the bytes, none of them zero, then a zero byte.\<close>

fun cstring_at :: "memory \<Rightarrow> addr \<Rightarrow> byte list \<Rightarrow> bool" where
  "cstring_at m a [] = (read_u8 m a = Some 0)"
| "cstring_at m a (b # bs) = (b \<noteq> 0 \<and> read_u8 m a = Some b \<and> cstring_at m (a + 1) bs)"

text \<open>
  The two parallel thunk arrays of one import descriptor: the pairs
  (\<^verbatim>\<open>AddressOfData\<close> of the name table, \<^verbatim>\<open>Function\<close> of the address table), the name
  table ending at a zero entry.
\<close>

fun thunks_at :: "memory \<Rightarrow> addr \<Rightarrow> addr \<Rightarrow> (addr \<times> addr) list \<Rightarrow> bool" where
  "thunks_at m ot t [] = (read_u64 m ot = Some 0)"
| "thunks_at m ot t ((AddressOfData, Function) # ps) =
     (AddressOfData \<noteq> 0 \<and> read_u64 m ot = Some AddressOfData \<and>
      read_u64 m t = Some Function \<and> thunks_at m (ot + 8) (t + 8) ps)"

text \<open>
  One import descriptor as parsed: the three fields the code reads, the name its
  \<^verbatim>\<open>Name\<close> field points to, and the thunk pairs its two tables hold.
\<close>

record import_entry =
  OriginalFirstThunk :: "32 word"
  Name :: "32 word"
  FirstThunk :: "32 word"
  dll_name :: "byte list"
  thunks :: "(addr \<times> addr) list"

text \<open>
  Descriptors \<open>ds\<close> stand one after the other from \<open>p\<close> on, each with a non-zero
  \<^verbatim>\<open>Name\<close>, its name string and its thunk tables; \<open>base\<close> is the image base that the
  relative addresses count from. What follows the last one is left open.
\<close>

fun descriptors_at :: "memory \<Rightarrow> addr \<Rightarrow> addr \<Rightarrow> import_entry list \<Rightarrow> bool" where
  "descriptors_at m base p [] = True"
| "descriptors_at m base p (d # ds) =
     (Name d \<noteq> 0 \<and>
      read_u32 m (p + off_OriginalFirstThunk) = Some (OriginalFirstThunk d) \<and>
      read_u32 m (p + off_Name) = Some (Name d) \<and>
      read_u32 m (p + off_FirstThunk) = Some (FirstThunk d) \<and>
      cstring_at m (base + ucast (Name d)) (dll_name d) \<and>
      thunks_at m (base + ucast (OriginalFirstThunk d)) (base + ucast (FirstThunk d)) (thunks d) \<and>
      descriptors_at m base (p + sizeof_IMAGE_IMPORT_DESCRIPTOR) ds)"

text \<open>The whole table: the descriptors and, after them, one whose \<^verbatim>\<open>Name\<close> is zero.\<close>

definition import_table_at :: "memory \<Rightarrow> addr \<Rightarrow> addr \<Rightarrow> import_entry list \<Rightarrow> bool" where
  "import_table_at m base p ds =
     (descriptors_at m base p ds \<and>
      read_u32 m (p + sizeof_IMAGE_IMPORT_DESCRIPTOR * of_nat (length ds) + off_Name) = Some 0)"

subsection \<open>What the lookup is to find\<close>

text \<open>
  The specification's reading of the lookup, written without the loops. A name matches
  when the two strings agree after lower-casing. A thunk pair is bound to the target when
  its current value is the target address, or when its name-table entry, masked to 28
  bits, is at most \<^verbatim>\<open>0xFFFF\<close> and resolves as an ordinal to the target address.
\<close>

definition same_name :: "byte list \<Rightarrow> string \<Rightarrow> bool" where
  "same_name bs s = (map tolower bs = map (\<lambda>c. tolower (of_char c)) s)"

definition ordinal_bound :: "platform \<Rightarrow> addr \<Rightarrow> addr \<Rightarrow> addr \<Rightarrow> bool" where
  "ordinal_bound os handle target AddressOfData =
     (AddressOfData AND 0xFFFFFFF \<le> 0xFFFF \<and>
      GetProcAddress os handle (ByOrdinal (ucast (AddressOfData AND 0xFFFFFFF))) = target)"

definition slot_bound :: "platform \<Rightarrow> addr \<Rightarrow> addr \<Rightarrow> addr \<times> addr \<times> addr \<Rightarrow> bool" where
  "slot_bound os handle target slot =
     (case slot of (a, AddressOfData, Function) \<Rightarrow>
        Function = target \<or> ordinal_bound os handle target AddressOfData)"

text \<open>
  The slots of an address table that starts at \<open>t\<close>: the address of each entry together
  with its pair, in table order.
\<close>

fun slots_from :: "addr \<Rightarrow> (addr \<times> addr) list \<Rightarrow> (addr \<times> addr \<times> addr) list" where
  "slots_from t [] = []"
| "slots_from t (p # ps) = (t, p) # slots_from (t + sizeof_IMAGE_THUNK_DATA) ps"

definition slots_of :: "addr \<Rightarrow> import_entry \<Rightarrow> (addr \<times> addr \<times> addr) list" where
  "slots_of base d = slots_from (base + ucast (FirstThunk d)) (thunks d)"

text \<open>
  All slots of the descriptors whose name matches, descriptor after descriptor, and the
  first of them that is bound to the target (null when there is none).
\<close>

definition candidate_slots :: "addr \<Rightarrow> string \<Rightarrow> import_entry list \<Rightarrow> (addr \<times> addr \<times> addr) list" where
  "candidate_slots base name ds =
     concat (map (slots_of base) (filter (\<lambda>d. same_name (dll_name d) name) ds))"

definition first_bound_slot ::
  "platform \<Rightarrow> addr \<Rightarrow> addr \<Rightarrow> (addr \<times> addr \<times> addr) list \<Rightarrow> addr" where
  "first_bound_slot os handle target slots =
     (case List.find (slot_bound os handle target) slots of
        None \<Rightarrow> 0
      | Some (a, AddressOfData, Function) \<Rightarrow> a)"

text \<open>The claim that the scan ends only at a descriptor made of zeros speaks of this.\<close>

definition all_zero_descriptor :: "memory \<Rightarrow> addr \<Rightarrow> bool" where
  "all_zero_descriptor m p =
     (read_u32 m p = Some 0 \<and> read_u32 m (p + 4) = Some 0 \<and> read_u32 m (p + 8) = Some 0 \<and>
      read_u32 m (p + 12) = Some 0 \<and> read_u32 m (p + 16) = Some 0)"

section \<open>A small image\<close>

text \<open>
  A concrete process, used to run the functions and to show that the hypotheses of the
  statements below can be met. Memory is given by the bytes of a few segments; the rest
  of each mapped region is zero, and everything else is unmapped.
\<close>

definition le16 :: "16 word \<Rightarrow> byte list" where
  "le16 w = [ucast w, ucast (drop_bit 8 w)]"

definition le32 :: "32 word \<Rightarrow> byte list" where
  "le32 w = le16 (ucast w) @ le16 (ucast (drop_bit 16 w))"

definition le64 :: "64 word \<Rightarrow> byte list" where
  "le64 w = le32 (ucast w) @ le32 (ucast (drop_bit 32 w))"

definition descriptor_bytes :: "32 word \<Rightarrow> 32 word \<Rightarrow> 32 word \<Rightarrow> byte list" where
  "descriptor_bytes original_first_thunk name first_thunk =
     le32 original_first_thunk @ le32 0 @ le32 0 @ le32 name @ le32 first_thunk"

text \<open>
  A table of segments, listed from the highest start address down; segments do not
  overlap. The first segment that starts at or below the address decides.
\<close>

fun segments_lookup :: "(nat \<times> byte list) list \<Rightarrow> nat \<Rightarrow> byte option" where
  "segments_lookup [] n = None"
| "segments_lookup ((start, bytes) # segs) n =
     (if n < start then segments_lookup segs n
      else if n - start < length bytes then Some (bytes ! (n - start))
      else None)"

text \<open>
  The process: an executable mapped at \<^verbatim>\<open>0x400000\<close>, three pages long, and the first
  page of a system library at \<^verbatim>\<open>0x7FFA00000000\<close>.
\<close>

definition process_memory :: "(nat \<times> byte list) list \<Rightarrow> memory" where
  "process_memory segs a =
     (case segments_lookup segs (unat a) of
        Some b \<Rightarrow> Some b
      | None \<Rightarrow>
          if 0x400000 \<le> unat a \<and> unat a < 0x403000 then Some 0
          else if 0x7FFA00000000 \<le> unat a \<and> unat a < 0x7FFA00001000 then Some 0
          else None)"

text \<open>
  The contents of the process; the \<^verbatim>\<open>Name\<close> field of the first import descriptor is a
  parameter.
\<close>

definition image_segments :: "32 word \<Rightarrow> (nat \<times> byte list) list" where
  "image_segments first_name =
     [(0x7FFA00000000, le16 0x5A4D),
      (0x402100, le64 0x401500 @ le64 0x401600),
      (0x402018, le64 0x402100),
      (0x401340, le64 0x7FFA00003000 @ le64 0x7FFA00005000 @ le64 0x7FFA00004000),
      (0x401320, le64 0x7FFA00002000),
      (0x401300, le64 0x7FF900001000),
      (0x401220, map of_char ''kernel32.DLL''),
      (0x401210, map of_char ''KERNEL32.dll''),
      (0x401200, map of_char ''USER32.dll''),
      (0x401140, le64 0x1420 @ le64 0x8000000000000010 @ le64 0x1430),
      (0x401120, le64 0x1410),
      (0x401100, le64 0x1400),
      (0x401028, descriptor_bytes 0x1140 0x1220 0x1340),
      (0x401014, descriptor_bytes 0x1120 0x1210 0x1320),
      (0x401000, descriptor_bytes 0x1100 first_name 0x1300),
      (0x400150, le32 0x2000),
      (0x400110, le32 0x1000),
      (0x4000D0, le32 0x3000),
      (0x4000A8, le32 0x1500),
      (0x400094, le16 0xF0),
      (0x400086, le16 2),
      (0x40003C, le32 0x80),
      (0x400000, le16 0x5A4D)]"

definition demo_memory :: memory where
  "demo_memory = process_memory (image_segments 0x1200)"

text \<open>
  The same process with the \<^verbatim>\<open>Name\<close> field of the first import descriptor cleared; its
  two thunk fields stay as they are.
\<close>

definition cleared_name_memory :: memory where
  "cleared_name_memory = process_memory (image_segments 0)"

definition demo_lib :: Library where
  "demo_lib = \<lparr>m_Module = 0x400000\<rparr>"

definition null_lib :: Library where
  "null_lib = \<lparr>m_Module = 0\<rparr>"

text \<open>A handle to an address inside the image that does not start with the DOS signature.\<close>

definition bad_magic_lib :: Library where
  "bad_magic_lib = \<lparr>m_Module = 0x401000\<rparr>"

definition demo_imports :: "import_entry list" where
  "demo_imports =
     [\<lparr>OriginalFirstThunk = 0x1100, Name = 0x1200, FirstThunk = 0x1300,
        dll_name = map of_char ''USER32.dll'',
        thunks = [(0x1400, 0x7FF900001000)]\<rparr>,
      \<lparr>OriginalFirstThunk = 0x1120, Name = 0x1210, FirstThunk = 0x1320,
        dll_name = map of_char ''KERNEL32.dll'',
        thunks = [(0x1410, 0x7FFA00002000)]\<rparr>,
      \<lparr>OriginalFirstThunk = 0x1140, Name = 0x1220, FirstThunk = 0x1340,
        dll_name = map of_char ''kernel32.DLL'',
        thunks = [(0x1420, 0x7FFA00003000), (0x8000000000000010, 0x7FFA00005000),
                  (0x1430, 0x7FFA00004000)]\<rparr>]"

text \<open>
  The platform of the process: one system library is loaded; it exports \<^verbatim>\<open>Sleep\<close>,
  \<^verbatim>\<open>Beep\<close> (also as ordinal 16) and \<^verbatim>\<open>ExitProcess\<close>; the executable has a three-byte
  file behind it.
\<close>

definition demo_GetProcAddress :: "addr \<Rightarrow> proc_ref \<Rightarrow> addr" where
  "demo_GetProcAddress handle ref =
     (if handle \<noteq> 0x7FFA00000000 then 0
      else (case ref of
              ByName name \<Rightarrow>
                if name = ''Sleep'' then 0x7FFA00004000
                else if name = ''Beep'' then 0x7FFA00006000
                else if name = ''ExitProcess'' then 0x7FFA00007000
                else 0
            | ByOrdinal ordinal \<Rightarrow> if ordinal = 16 then 0x7FFA00006000 else 0))"

definition demo_platform :: platform where
  "demo_platform =
     \<lparr>GetModuleHandleA = (\<lambda>name. if name = ''kernel32.dll'' then 0x7FFA00000000 else 0),
      GetProcAddress = demo_GetProcAddress,
      GetModuleFileNameA = (\<lambda>handle. if handle = 0x400000 then ''C:/game/game.exe'' else []),
      ifstream_open = (\<lambda>path. if path = ''C:/game/game.exe'' then Some [1, 2, 3] else None),
      parent_path = (\<lambda>path. ''C:/game'')\<rparr>"

section \<open>Facts about the building blocks\<close>

subsection \<open>Validity\<close>

lemma IsValid_null: "m_Module lib = 0 \<Longrightarrow> IsValid m lib = Inr False"
  by (simp add: IsValid_def)

lemma invalid_sentinels:
  assumes "IsValid m lib = Inr False"
  shows "GetNTHeaders m lib = Inr 0" "GetOptionalHeader m lib = Inr 0"
    "GetRelativeEntryPoint m lib = Inr 0" "GetEntryPoint m lib = Inr 0"
    "GetPath os m lib = Inr []" "GetName os m lib = Inr []" "GetFolder os m lib = Inr []"
    "GetIATEntry os m lib moduleName procName = Some (Inr 0)"
    "Unprotect m lib trace = Inr trace" "Free m lib trace = Inr (lib, trace)"
  using assms
  by (simp_all add: GetNTHeaders_def GetOptionalHeader_def GetRelativeEntryPoint_def
      GetEntryPoint_def GetPath_def GetName_def GetFolder_def GetIATEntry_def Unprotect_def
      Free_def)

subsection \<open>The checksum loop\<close>

lemma unat_ucast_8_32: "unat (ucast (b :: 8 word) :: 32 word) = unat b"
proof -
  have "unat b < 2 ^ LENGTH(8)" by (rule unsigned_less)
  then have "unat b < 2 ^ 32" by simp
  then show ?thesis
    by (simp add: unsigned_ucast_eq take_bit_nat_eq_self)
qed

lemma checksum_loop_sum:
  "unat (checksum_loop bs c) = (unat c + sum_list (map unat bs)) mod 2 ^ 32"
proof (induction bs arbitrary: c)
  case Nil
  have "unat c < 2 ^ LENGTH(32)"
    by (rule unsigned_less)
  then show ?case by simp
next
  case (Cons b bs)
  have "unat (c + ucast b) = (unat c + unat b) mod 2 ^ 32"
    by (simp add: unat_word_ariths unat_ucast_8_32)
  then show ?case
    by (simp add: Cons.IH mod_add_left_eq add.assoc)
qed

subsection \<open>The section loop\<close>

lemma unat_succ_less: "(i :: 16 word) < n \<Longrightarrow> unat (i + 1) = unat i + 1"
  by (metis (no_types, lifting) add.commute add_0 inc_i inc_le
      unat_plus_simple unsigned_0 unsigned_1 word_gt_0)

lemma section_loop_run:
  "read_u16 m (nt + off_NumberOfSections) = Some n \<Longrightarrow> i \<le> n \<Longrightarrow> k = unat n - unat i \<Longrightarrow>
   section_loop m nt i cur hs =
     Inr (hs @ filter (\<lambda>a. a \<noteq> 0)
                 (map (\<lambda>j. cur + sizeof_IMAGE_SECTION_HEADER * of_nat j) [0..<k]))"
proof (induction k arbitrary: i cur hs)
  case 0
  then have "\<not> i < n"
    by (simp add: word_less_nat_alt word_le_nat_alt)
  with 0 show ?case by simp
next
  case (Suc k)
  then have lt: "i < n"
    by (simp add: word_less_nat_alt)
  then have step: "unat (i + 1) = unat i + 1"
    by (rule unat_succ_less)
  from lt have le: "i + 1 \<le> n"
    by (simp add: inc_le)
  have k: "k = unat n - unat (i + 1)"
    using Suc.prems(3) step by simp
  have upt: "[0..<Suc k] = 0 # map Suc [0..<k]"
    by (simp add: upt_conv_Cons map_Suc_upt del: upt_Suc)
  have shift: "(\<lambda>j. cur + sizeof_IMAGE_SECTION_HEADER + sizeof_IMAGE_SECTION_HEADER * of_nat j)
             = (\<lambda>j. cur + sizeof_IMAGE_SECTION_HEADER * of_nat (Suc j))"
    by (simp add: algebra_simps)
  show ?case
    using Suc.prems(1) lt Suc.IH [OF Suc.prems(1) le k]
    by (simp add: upt shift comp_def del: upt_Suc of_nat_Suc)
qed

subsection \<open>The TLS loop\<close>

lemma tls_loop_array:
  "u64_array_at m a (ps @ [0]) \<Longrightarrow> 0 \<notin> set ps \<Longrightarrow>
   tls_loop m a acc = Some (Inr (acc @ ps))"
proof (induction ps arbitrary: a acc)
  case Nil
  then show ?case by (subst tls_loop.simps) simp
next
  case (Cons p ps)
  then show ?case by (subst tls_loop.simps) simp
qed

subsection \<open>Case-insensitive comparison\<close>

lemma tolower_eq_0: "tolower c = 0 \<longleftrightarrow> c = 0"
proof (cases "0x41 \<le> c \<and> c \<le> 0x5A")
  case True
  then have "65 \<le> unat c" "unat c \<le> 90"
    by (simp_all add: word_le_nat_alt)
  then have "unat (c + 0x20) = unat c + 32"
    by (simp add: unat_word_ariths)
  then have "c + 0x20 \<noteq> 0" "c \<noteq> 0"
    using \<open>65 \<le> unat c\<close> by (auto simp add: unat_eq_0 simp flip: unat_eq_0)
  with True show ?thesis by (simp add: tolower_def)
next
  case False
  then show ?thesis by (auto simp add: tolower_def)
qed

lemma of_char_nat_eq_0: "(of_char c :: nat) = 0 \<longleftrightarrow> c = CHR 0x00"
proof -
  have "(of_char c :: nat) = of_char (CHR 0x00) \<longleftrightarrow> c = CHR 0x00"
    by (rule of_char_eq_iff)
  then show ?thesis by simp
qed

lemma of_char_eq_0: "(of_char d :: byte) = 0 \<longleftrightarrow> d = CHR 0x00"
proof -
  have lt: "(of_char d :: nat) < 256" by simp
  have "(of_char d :: byte) = word_of_nat (of_char d)"
    by (simp add: of_nat_of_char)
  moreover have "(word_of_nat (of_char d) :: byte) = 0 \<longleftrightarrow> (256 :: nat) dvd of_char d"
    by (simp add: word_of_nat_eq_0_iff)
  moreover have "(256 :: nat) dvd of_char d \<longleftrightarrow> (of_char d :: nat) = 0"
  proof -
    have "\<And>n::nat. n < 256 \<Longrightarrow> 256 dvd n \<longleftrightarrow> n = 0"
      by (auto dest: dvd_imp_le)
    from this [OF lt] show ?thesis .
  qed
  ultimately show ?thesis by (simp add: of_char_nat_eq_0)
qed

text \<open>
  On a string that lies in memory, \<open>stricmp\<close> returns, and it returns zero exactly when
  the two strings agree up to case.
\<close>

lemma stricmp_cstring:
  "cstring_at m p bs \<Longrightarrow> CHR 0x00 \<notin> set s \<Longrightarrow>
   \<exists>r. stricmp m p s = Inr r \<and> (r = 0 \<longleftrightarrow> same_name bs s)"
proof (induction s arbitrary: p bs)
  case Nil
  then show ?case
    by (cases bs) (simp_all add: same_name_def tolower_eq_0 uint_0_iff)
next
  case (Cons d ds)
  show ?case
  proof (cases bs)
    case Nil
    have "tolower (of_char d) \<noteq> 0"
      using Cons.prems(2) by (auto simp add: tolower_eq_0 of_char_eq_0)
    moreover have "tolower 0 = 0"
      by (simp add: tolower_eq_0)
    ultimately have "tolower 0 \<noteq> tolower (of_char d)"
      by simp
    with Nil Cons.prems show ?thesis
      by (simp add: same_name_def flip: word_uint_eq_iff)
  next
    case (Cons b bs')
    with Cons.prems Cons.IH [of "p + 1" bs'] show ?thesis
      by (auto simp add: same_name_def simp flip: word_uint_eq_iff)
  qed
qed

lemma c_str_no_NUL: "CHR 0x00 \<notin> set (c_str s)"
  by (auto simp add: c_str_def dest: set_takeWhileD)

subsection \<open>The two loops of the import lookup\<close>

lemma find_append_split:
  "List.find P (xs @ ys) = (case List.find P xs of None \<Rightarrow> List.find P ys | Some x \<Rightarrow> Some x)"
  by (induction xs) simp_all

lemma candidate_slots_Cons:
  "candidate_slots base name (d # ds) =
     (if same_name (dll_name d) name then slots_of base d else []) @ candidate_slots base name ds"
  by (simp add: candidate_slots_def)

lemma slot_bound_triple:
  "slot_bound os h target (a, aod, fn) = (fn = target \<or> ordinal_bound os h target aod)"
  by (simp add: slot_bound_def)

text \<open>
  On well-formed thunk tables the inner loop returns, and what it returns is the first
  slot, in table order, that is bound to the target.
\<close>

lemma thunk_loop_find:
  "thunks_at m ot t ps \<Longrightarrow>
   thunk_loop os m other target ot t =
     Some (Inr (map_option fst (List.find (slot_bound os (m_Module other) target) (slots_from t ps))))"
proof (induction ps arbitrary: ot t)
  case Nil
  then show ?case by (subst thunk_loop.simps) simp
next
  case (Cons p ps)
  obtain aod fn where p: "p = (aod, fn)" by (cases p)
  from Cons.prems p have rd: "aod \<noteq> 0" "read_u64 m ot = Some aod" "read_u64 m t = Some fn"
    and rest: "thunks_at m (ot + 8) (t + 8) ps"
    by simp_all
  show ?case
    using rd Cons.IH [OF rest]
    by (subst thunk_loop.simps)
       (auto simp add: p slot_bound_triple ordinal_bound_def sizeof_IMAGE_THUNK_DATA_def)
qed

text \<open>
  Over a run of well-formed descriptors the outer loop either returns the first bound
  slot among the descriptors whose name matches, or goes on behind the run.
\<close>

lemma import_loop_scan:
  "descriptors_at m (GetPtr lib) p ds \<Longrightarrow>
   import_loop os m lib moduleName other target p =
     (case List.find (slot_bound os (m_Module other) target)
             (candidate_slots (GetPtr lib) (c_str moduleName) ds) of
        Some slot \<Rightarrow> Some (Inr (fst slot))
      | None \<Rightarrow>
          import_loop os m lib moduleName other target
            (p + sizeof_IMAGE_IMPORT_DESCRIPTOR * of_nat (length ds)))"
proof (induction ds arbitrary: p)
  case Nil
  then show ?case by (simp add: candidate_slots_def)
next
  case (Cons d ds)
  let ?base = "GetPtr lib"
  from Cons.prems have nm: "Name d \<noteq> 0"
    and rd: "read_u32 m (p + off_OriginalFirstThunk) = Some (OriginalFirstThunk d)"
      "read_u32 m (p + off_Name) = Some (Name d)"
      "read_u32 m (p + off_FirstThunk) = Some (FirstThunk d)"
    and str: "cstring_at m (?base + ucast (Name d)) (dll_name d)"
    and th: "thunks_at m (?base + ucast (OriginalFirstThunk d)) (?base + ucast (FirstThunk d)) (thunks d)"
    and rest: "descriptors_at m ?base (p + sizeof_IMAGE_IMPORT_DESCRIPTOR) ds"
    by simp_all
  obtain r where r: "stricmp m (?base + ucast (Name d)) (c_str moduleName) = Inr r"
    and r0: "r = 0 \<longleftrightarrow> same_name (dll_name d) (c_str moduleName)"
    using stricmp_cstring [OF str c_str_no_NUL] by blast
  have next_p: "p + sizeof_IMAGE_IMPORT_DESCRIPTOR + sizeof_IMAGE_IMPORT_DESCRIPTOR * of_nat (length ds)
      = p + sizeof_IMAGE_IMPORT_DESCRIPTOR * of_nat (length (d # ds))"
    by (simp add: algebra_simps)
  note IH = Cons.IH [OF rest, unfolded next_p]
  have inner: "thunk_loop os m other target (ucast (OriginalFirstThunk d) + ?base)
                 (ucast (FirstThunk d) + ?base) =
      Some (Inr (map_option fst (List.find (slot_bound os (m_Module other) target) (slots_of ?base d))))"
    using thunk_loop_find [OF th] by (simp add: slots_of_def add.commute)
  show ?case
  proof (cases "same_name (dll_name d) (c_str moduleName)")
    case False
    with r0 have "r \<noteq> 0" by simp
    then show ?thesis
      using nm rd r IH False
      by (subst import_loop.simps) (simp add: candidate_slots_Cons)
  next
    case True
    with r0 have "r = 0" by simp
    then show ?thesis
      using nm rd r IH True inner
      by (subst import_loop.simps)
         (auto simp add: candidate_slots_Cons find_append_split split: option.splits)
  qed
qed

lemma import_loop_end:
  "read_u32 m (p + off_Name) = Some 0 \<Longrightarrow>
   import_loop os m lib moduleName other target p = Some (Inr 0)"
  by (subst import_loop.simps) simp

section \<open>The small image, evaluated\<close>

text \<open>The bytes of the two memories, written out.\<close>

lemma demo_segments_bytes:
  "image_segments 0x1200 =
     [(0x7FFA00000000, [0x4D, 0x5A]),
      (0x402100, [0, 0x15, 0x40, 0, 0, 0, 0, 0, 0, 0x16, 0x40, 0, 0, 0, 0, 0]),
      (0x402018, [0, 0x21, 0x40, 0, 0, 0, 0, 0]),
      (0x401340, [0, 0x30, 0, 0, 0xFA, 0x7F, 0, 0, 0, 0x50, 0, 0, 0xFA, 0x7F, 0, 0, 0, 0x40, 0,
        0, 0xFA, 0x7F, 0, 0]),
      (0x401320, [0, 0x20, 0, 0, 0xFA, 0x7F, 0, 0]),
      (0x401300, [0, 0x10, 0, 0, 0xF9, 0x7F, 0, 0]),
      (0x401220, [0x6B, 0x65, 0x72, 0x6E, 0x65, 0x6C, 0x33, 0x32, 0x2E, 0x44, 0x4C, 0x4C]),
      (0x401210, [0x4B, 0x45, 0x52, 0x4E, 0x45, 0x4C, 0x33, 0x32, 0x2E, 0x64, 0x6C, 0x6C]),
      (0x401200, [0x55, 0x53, 0x45, 0x52, 0x33, 0x32, 0x2E, 0x64, 0x6C, 0x6C]),
      (0x401140, [0x20, 0x14, 0, 0, 0, 0, 0, 0, 0x10, 0, 0, 0, 0, 0, 0, 0x80, 0x30, 0x14, 0, 0,
        0, 0, 0, 0]),
      (0x401120, [0x10, 0x14, 0, 0, 0, 0, 0, 0]),
      (0x401100, [0, 0x14, 0, 0, 0, 0, 0, 0]),
      (0x401028, [0x40, 0x11, 0, 0, 0, 0, 0, 0, 0, 0, 0, 0, 0x20, 0x12, 0, 0, 0x40, 0x13, 0,
        0]),
      (0x401014, [0x20, 0x11, 0, 0, 0, 0, 0, 0, 0, 0, 0, 0, 0x10, 0x12, 0, 0, 0x20, 0x13, 0,
        0]),
      (0x401000, [0, 0x11, 0, 0, 0, 0, 0, 0, 0, 0, 0, 0, 0, 0x12, 0, 0, 0, 0x13, 0, 0]),
      (0x400150, [0, 0x20, 0, 0]),
      (0x400110, [0, 0x10, 0, 0]),
      (0x4000D0, [0, 0x30, 0, 0]),
      (0x4000A8, [0, 0x15, 0, 0]),
      (0x400094, [0xF0, 0]),
      (0x400086, [0x02, 0]),
      (0x40003C, [0x80, 0, 0, 0]),
      (0x400000, [0x4D, 0x5A])]"
  by (simp add: image_segments_def descriptor_bytes_def le64_def le32_def le16_def)

lemma cleared_segments_bytes:
  "image_segments 0 =
     [(0x7FFA00000000, [0x4D, 0x5A]),
      (0x402100, [0, 0x15, 0x40, 0, 0, 0, 0, 0, 0, 0x16, 0x40, 0, 0, 0, 0, 0]),
      (0x402018, [0, 0x21, 0x40, 0, 0, 0, 0, 0]),
      (0x401340, [0, 0x30, 0, 0, 0xFA, 0x7F, 0, 0, 0, 0x50, 0, 0, 0xFA, 0x7F, 0, 0, 0, 0x40, 0,
        0, 0xFA, 0x7F, 0, 0]),
      (0x401320, [0, 0x20, 0, 0, 0xFA, 0x7F, 0, 0]),
      (0x401300, [0, 0x10, 0, 0, 0xF9, 0x7F, 0, 0]),
      (0x401220, [0x6B, 0x65, 0x72, 0x6E, 0x65, 0x6C, 0x33, 0x32, 0x2E, 0x44, 0x4C, 0x4C]),
      (0x401210, [0x4B, 0x45, 0x52, 0x4E, 0x45, 0x4C, 0x33, 0x32, 0x2E, 0x64, 0x6C, 0x6C]),
      (0x401200, [0x55, 0x53, 0x45, 0x52, 0x33, 0x32, 0x2E, 0x64, 0x6C, 0x6C]),
      (0x401140, [0x20, 0x14, 0, 0, 0, 0, 0, 0, 0x10, 0, 0, 0, 0, 0, 0, 0x80, 0x30, 0x14, 0, 0,
        0, 0, 0, 0]),
      (0x401120, [0x10, 0x14, 0, 0, 0, 0, 0, 0]),
      (0x401100, [0, 0x14, 0, 0, 0, 0, 0, 0]),
      (0x401028, [0x40, 0x11, 0, 0, 0, 0, 0, 0, 0, 0, 0, 0, 0x20, 0x12, 0, 0, 0x40, 0x13, 0,
        0]),
      (0x401014, [0x20, 0x11, 0, 0, 0, 0, 0, 0, 0, 0, 0, 0, 0x10, 0x12, 0, 0, 0x20, 0x13, 0,
        0]),
      (0x401000, [0, 0x11, 0, 0, 0, 0, 0, 0, 0, 0, 0, 0, 0, 0, 0, 0, 0, 0x13, 0, 0]),
      (0x400150, [0, 0x20, 0, 0]),
      (0x400110, [0, 0x10, 0, 0]),
      (0x4000D0, [0, 0x30, 0, 0]),
      (0x4000A8, [0, 0x15, 0, 0]),
      (0x400094, [0xF0, 0]),
      (0x400086, [0x02, 0]),
      (0x40003C, [0x80, 0, 0, 0]),
      (0x400000, [0x4D, 0x5A])]"
  by (simp add: image_segments_def descriptor_bytes_def le64_def le32_def le16_def)

lemma segments_lookup_weak_cong:
  "n = n' \<Longrightarrow> segments_lookup segs n = segments_lookup segs n'"
  by simp

lemma demo_lookup:
  "demo_memory a =
     (case segments_lookup
        [(0x7FFA00000000, [0x4D, 0x5A]),
      (0x402100, [0, 0x15, 0x40, 0, 0, 0, 0, 0, 0, 0x16, 0x40, 0, 0, 0, 0, 0]),
      (0x402018, [0, 0x21, 0x40, 0, 0, 0, 0, 0]),
      (0x401340, [0, 0x30, 0, 0, 0xFA, 0x7F, 0, 0, 0, 0x50, 0, 0, 0xFA, 0x7F, 0, 0, 0, 0x40, 0,
        0, 0xFA, 0x7F, 0, 0]),
      (0x401320, [0, 0x20, 0, 0, 0xFA, 0x7F, 0, 0]),
      (0x401300, [0, 0x10, 0, 0, 0xF9, 0x7F, 0, 0]),
      (0x401220, [0x6B, 0x65, 0x72, 0x6E, 0x65, 0x6C, 0x33, 0x32, 0x2E, 0x44, 0x4C, 0x4C]),
      (0x401210, [0x4B, 0x45, 0x52, 0x4E, 0x45, 0x4C, 0x33, 0x32, 0x2E, 0x64, 0x6C, 0x6C]),
      (0x401200, [0x55, 0x53, 0x45, 0x52, 0x33, 0x32, 0x2E, 0x64, 0x6C, 0x6C]),
      (0x401140, [0x20, 0x14, 0, 0, 0, 0, 0, 0, 0x10, 0, 0, 0, 0, 0, 0, 0x80, 0x30, 0x14, 0, 0,
        0, 0, 0, 0]),
      (0x401120, [0x10, 0x14, 0, 0, 0, 0, 0, 0]),
      (0x401100, [0, 0x14, 0, 0, 0, 0, 0, 0]),
      (0x401028, [0x40, 0x11, 0, 0, 0, 0, 0, 0, 0, 0, 0, 0, 0x20, 0x12, 0, 0, 0x40, 0x13, 0,
        0]),
      (0x401014, [0x20, 0x11, 0, 0, 0, 0, 0, 0, 0, 0, 0, 0, 0x10, 0x12, 0, 0, 0x20, 0x13, 0,
        0]),
      (0x401000, [0, 0x11, 0, 0, 0, 0, 0, 0, 0, 0, 0, 0, 0, 0x12, 0, 0, 0, 0x13, 0, 0]),
      (0x400150, [0, 0x20, 0, 0]),
      (0x400110, [0, 0x10, 0, 0]),
      (0x4000D0, [0, 0x30, 0, 0]),
      (0x4000A8, [0, 0x15, 0, 0]),
      (0x400094, [0xF0, 0]),
      (0x400086, [0x02, 0]),
      (0x40003C, [0x80, 0, 0, 0]),
      (0x400000, [0x4D, 0x5A])]
        (unat a) of
        Some b \<Rightarrow> Some b
      | None \<Rightarrow>
          if 0x400000 \<le> unat a \<and> unat a < 0x403000 then Some 0
          else if 0x7FFA00000000 \<le> unat a \<and> unat a < 0x7FFA00001000 then Some 0
          else None)"
  by (simp only: demo_memory_def process_memory_def demo_segments_bytes)

lemma cleared_lookup:
  "cleared_name_memory a =
     (case segments_lookup
        [(0x7FFA00000000, [0x4D, 0x5A]),
      (0x402100, [0, 0x15, 0x40, 0, 0, 0, 0, 0, 0, 0x16, 0x40, 0, 0, 0, 0, 0]),
      (0x402018, [0, 0x21, 0x40, 0, 0, 0, 0, 0]),
      (0x401340, [0, 0x30, 0, 0, 0xFA, 0x7F, 0, 0, 0, 0x50, 0, 0, 0xFA, 0x7F, 0, 0, 0, 0x40, 0,
        0, 0xFA, 0x7F, 0, 0]),
      (0x401320, [0, 0x20, 0, 0, 0xFA, 0x7F, 0, 0]),
      (0x401300, [0, 0x10, 0, 0, 0xF9, 0x7F, 0, 0]),
      (0x401220, [0x6B, 0x65, 0x72, 0x6E, 0x65, 0x6C, 0x33, 0x32, 0x2E, 0x44, 0x4C, 0x4C]),
      (0x401210, [0x4B, 0x45, 0x52, 0x4E, 0x45, 0x4C, 0x33, 0x32, 0x2E, 0x64, 0x6C, 0x6C]),
      (0x401200, [0x55, 0x53, 0x45, 0x52, 0x33, 0x32, 0x2E, 0x64, 0x6C, 0x6C]),
      (0x401140, [0x20, 0x14, 0, 0, 0, 0, 0, 0, 0x10, 0, 0, 0, 0, 0, 0, 0x80, 0x30, 0x14, 0, 0,
        0, 0, 0, 0]),
      (0x401120, [0x10, 0x14, 0, 0, 0, 0, 0, 0]),
      (0x401100, [0, 0x14, 0, 0, 0, 0, 0, 0]),
      (0x401028, [0x40, 0x11, 0, 0, 0, 0, 0, 0, 0, 0, 0, 0, 0x20, 0x12, 0, 0, 0x40, 0x13, 0,
        0]),
      (0x401014, [0x20, 0x11, 0, 0, 0, 0, 0, 0, 0, 0, 0, 0, 0x10, 0x12, 0, 0, 0x20, 0x13, 0,
        0]),
      (0x401000, [0, 0x11, 0, 0, 0, 0, 0, 0, 0, 0, 0, 0, 0, 0, 0, 0, 0, 0x13, 0, 0]),
      (0x400150, [0, 0x20, 0, 0]),
      (0x400110, [0, 0x10, 0, 0]),
      (0x4000D0, [0, 0x30, 0, 0]),
      (0x4000A8, [0, 0x15, 0, 0]),
      (0x400094, [0xF0, 0]),
      (0x400086, [0x02, 0]),
      (0x40003C, [0x80, 0, 0, 0]),
      (0x400000, [0x4D, 0x5A])]
        (unat a) of
        Some b \<Rightarrow> Some b
      | None \<Rightarrow>
          if 0x400000 \<le> unat a \<and> unat a < 0x403000 then Some 0
          else if 0x7FFA00000000 \<le> unat a \<and> unat a < 0x7FFA00001000 then Some 0
          else None)"
  by (simp only: cleared_name_memory_def process_memory_def cleared_segments_bytes)

lemmas read_defs = read_u64_def read_u32_def read_u16_def read_u8_def

lemmas layout_defs =
  IMAGE_DOS_SIGNATURE_def off_e_lfanew_def off_NumberOfSections_def
  off_SizeOfOptionalHeader_def off_OptionalHeader_def off_AddressOfEntryPoint_def
  off_SizeOfImage_def off_DataDirectory_def IMAGE_DIRECTORY_ENTRY_IMPORT_def
  IMAGE_DIRECTORY_ENTRY_TLS_def sizeof_IMAGE_SECTION_HEADER_def off_AddressOfCallBacks_def
  sizeof_IMAGE_IMPORT_DESCRIPTOR_def off_OriginalFirstThunk_def off_Name_def
  off_FirstThunk_def sizeof_IMAGE_THUNK_DATA_def PAGE_EXECUTE_READWRITE_def
  DataDirectory_VirtualAddress_def GetPtr_def GetDOSHeader_def

subsection \<open>The unchanged image\<close>

lemma demo_IsValid: "IsValid demo_memory demo_lib = Inr True"
  by (simp add: IsValid_def demo_lib_def layout_defs read_defs demo_lookup
      cong: segments_lookup_weak_cong)

lemma demo_e_lfanew: "read_u32 demo_memory 0x40003C = Some 0x80"
  by (simp add: read_defs demo_lookup cong: segments_lookup_weak_cong)

lemma demo_GetNTHeaders: "GetNTHeaders demo_memory demo_lib = Inr 0x400080"
  by (simp add: GetNTHeaders_def demo_IsValid)
     (simp add: demo_lib_def layout_defs demo_e_lfanew)

lemma demo_GetOptionalHeader: "GetOptionalHeader demo_memory demo_lib = Inr 0x400098"
  by (simp add: GetOptionalHeader_def demo_IsValid demo_GetNTHeaders off_OptionalHeader_def)

lemma demo_header_fields:
  "read_u16 demo_memory 0x400086 = Some 2"
  "read_u16 demo_memory 0x400094 = Some 0xF0"
  "read_u32 demo_memory 0x4000D0 = Some 0x3000"
  "read_u32 demo_memory 0x400110 = Some 0x1000"
  "read_u32 demo_memory 0x400150 = Some 0x2000"
  by (simp_all add: read_defs demo_lookup cong: segments_lookup_weak_cong)

lemma demo_tls_array:
  "read_u64 demo_memory 0x402018 = Some 0x402100"
  "u64_array_at demo_memory 0x402100 [0x401500, 0x401600, 0]"
  by (simp_all add: read_defs demo_lookup cong: segments_lookup_weak_cong)

lemma demo_descriptors: "descriptors_at demo_memory 0x400000 0x401000 demo_imports"
  by (simp add: demo_imports_def layout_defs read_defs demo_lookup
      cong: segments_lookup_weak_cong)

lemma demo_import_end: "read_u32 demo_memory 0x401048 = Some 0"
  by (simp add: read_defs demo_lookup cong: segments_lookup_weak_cong)

lemma demo_kernel32: "Library_of_name demo_platform ''kernel32.dll'' = \<lparr>m_Module = 0x7FFA00000000\<rparr>"
  by (simp add: Library_of_name_def demo_platform_def c_str_def)

lemma demo_kernel32_valid: "IsValid demo_memory \<lparr>m_Module = 0x7FFA00000000\<rparr> = Inr True"
  by (simp add: IsValid_def layout_defs read_defs demo_lookup cong: segments_lookup_weak_cong)

lemma demo_null_page:
  "read_u16 demo_memory 20 = None" "read_u32 demo_memory 184 = None"
  by (simp_all add: read_defs demo_lookup cong: segments_lookup_weak_cong)

lemma demo_bad_magic: "IsValid demo_memory bad_magic_lib = Inr False"
  by (simp add: IsValid_def bad_magic_lib_def layout_defs read_defs demo_lookup
      cong: segments_lookup_weak_cong)

lemma demo_GetProc:
  "GetProc demo_platform \<lparr>m_Module = 0x7FFA00000000\<rparr> ''Sleep'' = 0x7FFA00004000"
  "GetProc demo_platform \<lparr>m_Module = 0x7FFA00000000\<rparr> ''Beep'' = 0x7FFA00006000"
  "GetProc demo_platform \<lparr>m_Module = 0x7FFA00000000\<rparr> ''ExitProcess'' = 0x7FFA00007000"
  by (simp_all add: GetProc_def demo_platform_def demo_GetProcAddress_def c_str_def)

lemma demo_same_name:
  "\<not> same_name (map of_char ''USER32.dll'') ''kernel32.dll''"
  "same_name (map of_char ''KERNEL32.dll'') ''kernel32.dll''"
  "same_name (map of_char ''kernel32.DLL'') ''kernel32.dll''"
  by (simp_all add: same_name_def tolower_def)

lemma demo_candidate_slots:
  "candidate_slots 0x400000 ''kernel32.dll'' demo_imports =
     [(0x401320, 0x1410, 0x7FFA00002000),
      (0x401340, 0x1420, 0x7FFA00003000),
      (0x401348, 0x8000000000000010, 0x7FFA00005000),
      (0x401350, 0x1430, 0x7FFA00004000)]"
  by (simp add: candidate_slots_def demo_imports_def same_name_def tolower_def slots_of_def
      sizeof_IMAGE_THUNK_DATA_def)

section \<open>The checksum\<close>

text \<open>
  C8. \<^verbatim>\<open>GetChecksum\<close> returns 0 when the file behind the module cannot be opened and 0 for
  an empty file; for a readable file it returns the sum of all bytes, each taken as an
  unsigned 8-bit value, modulo \<open>2^32\<close>. (The path is the one \<^verbatim>\<open>GetPath\<close> gives; only a
  fault while testing the handle keeps the function from returning.)
\<close>

theorem GetChecksum_byte_sum:
  "map_sum id unat (GetChecksum os m lib) =
     (case GetPath os m lib of
        Inl e \<Rightarrow> Inl e
      | Inr path \<Rightarrow>
          (case ifstream_open os path of
             None \<Rightarrow> Inr 0
           | Some bytes \<Rightarrow> Inr (sum_list (map unat bytes) mod 2 ^ 32)))"
  by (simp add: GetChecksum_def checksum_loop_sum split: sum.splits option.splits)

section \<open>Section headers\<close>

text \<open>
  C7. For a well-formed image with N sections (N is the section count of the file
  header), section enumeration returns exactly N section-header addresses in stored
  order: the records are 40 bytes each and start right behind the optional header, at
  \<open>nt + 24 + SizeOfOptionalHeader\<close>. Well-formed means here that the header fields can
  be read and that none of the N addresses is null (the image does not wrap around the
  address space).
\<close>

theorem GetSectionHeaders_count:
  assumes "GetNTHeaders m lib = Inr nt"
    and "read_u16 m (nt + off_SizeOfOptionalHeader) = Some size_opt"
    and "read_u16 m (nt + off_NumberOfSections) = Some n"
    and "first = nt + off_OptionalHeader + ucast size_opt"
    and "0 \<notin> set (map (\<lambda>j. first + sizeof_IMAGE_SECTION_HEADER * of_nat j) [0..<unat n])"
  shows "GetSectionHeaders m lib =
           Inr (map (\<lambda>j. first + sizeof_IMAGE_SECTION_HEADER * of_nat j) [0..<unat n]) \<and>
         length (map (\<lambda>j. first + sizeof_IMAGE_SECTION_HEADER * of_nat j) [0..<unat n]) = unat n"
proof -
  have "filter (\<lambda>a. a \<noteq> 0) (map (\<lambda>j. first + sizeof_IMAGE_SECTION_HEADER * of_nat j) [0..<unat n])
        = map (\<lambda>j. first + sizeof_IMAGE_SECTION_HEADER * of_nat j) [0..<unat n]"
    using assms(5) by (intro filter_True) auto
  then show ?thesis
    using assms(1,2,4) section_loop_run [OF assms(3), of 0 "unat n" first "[]"]
    by (simp add: GetSectionHeaders_def IMAGE_FIRST_SECTION_def)
qed

theorem GetSectionHeaders_count_witness:
  "GetNTHeaders demo_memory demo_lib = Inr 0x400080 \<and>
   read_u16 demo_memory (0x400080 + off_SizeOfOptionalHeader) = Some 0xF0 \<and>
   read_u16 demo_memory (0x400080 + off_NumberOfSections) = Some 2 \<and>
   GetSectionHeaders demo_memory demo_lib = Inr [0x400188, 0x4001B0]"
proof -
  have two: "[0..<unat (2 :: 16 word)] = [0, 1]"
    by (simp add: upt_rec)
  have nt: "GetNTHeaders demo_memory demo_lib = Inr 0x400080"
    by (rule demo_GetNTHeaders)
  have size_opt: "read_u16 demo_memory (0x400080 + off_SizeOfOptionalHeader) = Some 0xF0"
    by (simp add: layout_defs demo_header_fields)
  have n: "read_u16 demo_memory (0x400080 + off_NumberOfSections) = Some 2"
    by (simp add: layout_defs demo_header_fields)
  have first: "(0x400188 :: addr) = 0x400080 + off_OptionalHeader + ucast (0xF0 :: 16 word)"
    by (simp add: layout_defs)
  have nonnull:
    "0 \<notin> set (map (\<lambda>j. (0x400188 :: addr) + sizeof_IMAGE_SECTION_HEADER * of_nat j)
                [0..<unat (2 :: 16 word)])"
    unfolding two by (simp add: layout_defs)
  from GetSectionHeaders_count [OF nt size_opt n first nonnull] nt size_opt n
  show ?thesis
    unfolding two by (simp add: layout_defs)
qed

section \<open>TLS callbacks\<close>

text \<open>
  C6. TLS-callback enumeration returns the empty sequence when the \<^verbatim>\<open>VirtualAddress\<close> of
  the TLS data-directory entry is 0. Otherwise, when the callback array holds k non-null
  pointers followed by a null entry, it returns exactly those k pointers in array order.
  (The directory entry is read through the optional header that \<^verbatim>\<open>GetOptionalHeader\<close>
  returns; the statement needs that read to succeed.)
\<close>

theorem GetTlsCallbacks_array:
  assumes "GetOptionalHeader m lib = Inr opt"
    and "read_u32 m (DataDirectory_VirtualAddress opt IMAGE_DIRECTORY_ENTRY_TLS) = Some virtual_address"
    and "virtual_address \<noteq> 0 \<longrightarrow>
           read_u64 m (GetPtr lib + ucast virtual_address + off_AddressOfCallBacks) = Some callback_array \<and>
           u64_array_at m callback_array (callbacks @ [0]) \<and> 0 \<notin> set callbacks"
  shows "GetTlsCallbacks m lib = Some (Inr (if virtual_address = 0 then [] else callbacks))"
  using assms tls_loop_array [of m callback_array callbacks "[]"]
  by (simp add: GetTlsCallbacks_def)

theorem GetTlsCallbacks_array_witness:
  "GetTlsCallbacks demo_memory demo_lib = Some (Inr [0x401500, 0x401600]) \<and>
   GetTlsCallbacks demo_memory \<lparr>m_Module = 0x7FFA00000000\<rparr> = Some (Inr [])"
proof -
  have dir: "read_u32 demo_memory (DataDirectory_VirtualAddress 0x400098 IMAGE_DIRECTORY_ENTRY_TLS)
               = Some 0x2000"
    by (simp add: layout_defs demo_header_fields)
  have arr: "(0x2000 :: 32 word) \<noteq> 0 \<longrightarrow>
      read_u64 demo_memory (GetPtr demo_lib + ucast (0x2000 :: 32 word) + off_AddressOfCallBacks)
        = Some 0x402100 \<and>
      u64_array_at demo_memory 0x402100 ([0x401500, 0x401600] @ [0]) \<and>
      0 \<notin> set [0x401500, 0x401600 :: addr]"
    using demo_tls_array by (simp add: layout_defs demo_lib_def)
  have opt2: "GetOptionalHeader demo_memory \<lparr>m_Module = 0x7FFA00000000\<rparr> = Inr 0x7FFA00000018"
    by (simp add: GetOptionalHeader_def GetNTHeaders_def demo_kernel32_valid)
       (simp add: layout_defs read_defs demo_lookup cong: segments_lookup_weak_cong)
  have dir2: "read_u32 demo_memory (DataDirectory_VirtualAddress 0x7FFA00000018 IMAGE_DIRECTORY_ENTRY_TLS)
                = Some 0"
    by (simp add: layout_defs read_defs demo_lookup cong: segments_lookup_weak_cong)
  have none: "(0 :: 32 word) \<noteq> 0 \<longrightarrow>
      read_u64 demo_memory (GetPtr \<lparr>m_Module = 0x7FFA00000000\<rparr> + ucast (0 :: 32 word)
          + off_AddressOfCallBacks) = Some 0 \<and>
      u64_array_at demo_memory 0 (([] :: addr list) @ [0]) \<and> 0 \<notin> set ([] :: addr list)"
    by simp
  from GetTlsCallbacks_array [OF demo_GetOptionalHeader dir arr]
    GetTlsCallbacks_array [OF opt2 dir2 none]
  show ?thesis by simp
qed

section \<open>Unprotect and Free\<close>

text \<open>
  C9. \<^verbatim>\<open>Unprotect\<close> changes nothing on an invalid module. On a valid module it makes one
  request: read-write-execute protection for the range that starts at the image base and
  is \<^verbatim>\<open>SizeOfImage\<close> bytes long. The trace grows by that one call and by nothing else, so
  the earlier protection is not put back.
\<close>

theorem Unprotect_whole_image:
  assumes "IsValid m lib = Inr valid"
    and "valid \<longrightarrow> GetNTHeaders m lib = Inr nt \<and>
           read_u32 m (nt + off_OptionalHeader + off_SizeOfImage) = Some image_size"
  shows "Unprotect m lib trace =
           Inr (if valid
                then trace @ [VirtualProtect (GetPtr lib) (ucast image_size) PAGE_EXECUTE_READWRITE]
                else trace)"
  using assms by (cases valid) (simp_all add: Unprotect_def GetOptionalHeader_def)

theorem Unprotect_whole_image_witness:
  "Unprotect demo_memory demo_lib [] = Inr [VirtualProtect 0x400000 0x3000 0x40] \<and>
   Unprotect demo_memory null_lib [] = Inr []"
proof -
  have size: "True \<longrightarrow> GetNTHeaders demo_memory demo_lib = Inr 0x400080 \<and>
      read_u32 demo_memory (0x400080 + off_OptionalHeader + off_SizeOfImage) = Some 0x3000"
    by (simp add: demo_GetNTHeaders layout_defs demo_header_fields)
  have inv: "IsValid demo_memory null_lib = Inr False"
    by (simp add: IsValid_null null_lib_def)
  have unused: "False \<longrightarrow> GetNTHeaders demo_memory null_lib = Inr 0 \<and>
      read_u32 demo_memory (0 + off_OptionalHeader + off_SizeOfImage) = Some 0"
    by simp
  from Unprotect_whole_image [OF demo_IsValid size, where trace = "[]"]
    Unprotect_whole_image [OF inv unused, where trace = "[]"]
  show ?thesis
    by (simp add: layout_defs demo_lib_def)
qed

text \<open>
  C10. \<^verbatim>\<open>Free\<close> on a valid module releases the library once and sets the handle to null:
  from then on, whatever the memory holds, \<^verbatim>\<open>IsValid\<close> is false, every query that tests
  validity returns its sentinel, and a second \<^verbatim>\<open>Free\<close> releases nothing. \<^verbatim>\<open>Free\<close> on an
  invalid module changes neither the object nor the trace.
\<close>

theorem Free_invalidates_handle:
  assumes "IsValid m lib = Inr valid"
  shows "\<exists>lib' trace'. Free m lib trace = Inr (lib', trace') \<and>
           (valid \<longrightarrow>
              m_Module lib' = 0 \<and> trace' = trace @ [FreeLibrary (m_Module lib)] \<and>
              IsValid m' lib' = Inr False \<and>
              GetNTHeaders m' lib' = Inr 0 \<and> GetOptionalHeader m' lib' = Inr 0 \<and>
              GetRelativeEntryPoint m' lib' = Inr 0 \<and> GetEntryPoint m' lib' = Inr 0 \<and>
              GetPath os m' lib' = Inr [] \<and> GetName os m' lib' = Inr [] \<and>
              GetFolder os m' lib' = Inr [] \<and>
              GetIATEntry os m' lib' moduleName procName = Some (Inr 0) \<and>
              Unprotect m' lib' later = Inr later \<and>
              Free m' lib' later = Inr (lib', later)) \<and>
           (\<not> valid \<longrightarrow> lib' = lib \<and> trace' = trace)"
proof (cases valid)
  case True
  have inv: "IsValid m' (lib\<lparr>m_Module := 0\<rparr>) = Inr False"
    by (simp add: IsValid_null)
  show ?thesis
    using assms True inv invalid_sentinels [OF inv]
    by (simp add: Free_def)
next
  case False
  then show ?thesis
    using assms by (simp add: Free_def)
qed

theorem Free_invalidates_handle_witness:
  "Free demo_memory demo_lib [] = Inr (null_lib, [FreeLibrary 0x400000]) \<and>
   IsValid demo_memory null_lib = Inr False \<and>
   GetIATEntry demo_platform demo_memory null_lib ''kernel32.dll'' ''Sleep'' = Some (Inr 0) \<and>
   Free demo_memory null_lib [FreeLibrary 0x400000] = Inr (null_lib, [FreeLibrary 0x400000])"
proof -
  have inv: "IsValid demo_memory null_lib = Inr False"
    by (simp add: IsValid_null null_lib_def)
  from Free_invalidates_handle
         [OF demo_IsValid, where trace = "[]" and m' = demo_memory and os = demo_platform
            and moduleName = "''kernel32.dll''" and procName = "''Sleep''"
            and later = "[FreeLibrary 0x400000]"]
  obtain lib' trace' where freed: "Free demo_memory demo_lib [] = Inr (lib', trace')"
    and null: "m_Module lib' = 0"
    and trace: "trace' = [] @ [FreeLibrary (m_Module demo_lib)]"
    and after: "IsValid demo_memory lib' = Inr False"
      "GetIATEntry demo_platform demo_memory lib' ''kernel32.dll'' ''Sleep'' = Some (Inr 0)"
      "Free demo_memory lib' [FreeLibrary 0x400000] = Inr (lib', [FreeLibrary 0x400000])"
    by auto
  have lib': "lib' = null_lib"
    using null by (cases lib') (simp add: null_lib_def)
  from Free_invalidates_handle [OF inv, where trace = "[FreeLibrary 0x400000]"]
  have again: "Free demo_memory null_lib [FreeLibrary 0x400000]
                 = Inr (null_lib, [FreeLibrary 0x400000])"
    by auto
  from freed trace after again show ?thesis
    by (simp add: lib' demo_lib_def)
qed

section \<open>The import slot lookup\<close>

lemma slots_from_snd: "s \<in> set (slots_from t ps) \<Longrightarrow> snd s \<in> set ps"
  by (induction ps arbitrary: t) auto

lemma first_bound_slot_found:
  "first_bound_slot os h target slots \<noteq> 0 \<Longrightarrow>
   \<exists>aod fn. (first_bound_slot os h target slots, aod, fn) \<in> set slots \<and>
            (fn = target \<or> ordinal_bound os h target aod)"
proof -
  assume nz: "first_bound_slot os h target slots \<noteq> 0"
  then obtain a aod fn where f: "List.find (slot_bound os h target) slots = Some (a, aod, fn)"
    by (cases "List.find (slot_bound os h target) slots")
       (auto simp add: first_bound_slot_def)
  then have "(a, aod, fn) \<in> set slots" "slot_bound os h target (a, aod, fn)"
    by (auto simp add: find_Some_iff)
  moreover have "first_bound_slot os h target slots = a"
    using f by (simp add: first_bound_slot_def)
  ultimately show ?thesis
    by (auto simp add: slot_bound_triple)
qed

lemma first_bound_slot_none:
  "\<forall>s \<in> set slots. \<not> slot_bound os h target s \<Longrightarrow> first_bound_slot os h target slots = 0"
proof -
  assume "\<forall>s \<in> set slots. \<not> slot_bound os h target s"
  then have "List.find (slot_bound os h target) slots = None"
    by (simp add: find_None_iff)
  then show ?thesis
    by (simp add: first_bound_slot_def)
qed

text \<open>
  C1. For a valid module with a well-formed import table, \<^verbatim>\<open>GetIATEntry\<close> returns. When
  the target module is not loaded or does not export the symbol, the result is null.
  Otherwise the result is the address of the first slot, among the descriptors whose name
  is the requested module name up to case, that is bound to the symbol: its current
  thunk value is the resolved address, or its name-table entry is an ordinal that
  resolves to that address. It is null when no such slot exists.
\<close>

theorem GetIATEntry_first_bound_slot:
  assumes "IsValid m lib = Inr True"
    and "IsValid m (Library_of_name os moduleName) = Inr other_valid"
    and "target = GetProc os (Library_of_name os moduleName) procName"
    and "handle = m_Module (Library_of_name os moduleName)"
    and "GetOptionalHeader m lib = Inr header" and "header \<noteq> 0"
    and "read_u32 m (DataDirectory_VirtualAddress header IMAGE_DIRECTORY_ENTRY_IMPORT) = Some import_rva"
    and "import_table_at m (GetPtr lib) (GetPtr lib + ucast import_rva) ds"
    and "slots = candidate_slots (GetPtr lib) (c_str moduleName) ds"
  shows "\<exists>r. GetIATEntry os m lib moduleName procName = Some (Inr r) \<and>
           r = (if other_valid \<and> target \<noteq> 0 then first_bound_slot os handle target slots else 0) \<and>
           (r \<noteq> 0 \<longrightarrow>
              (\<exists>aod fn. (r, aod, fn) \<in> set slots \<and>
                 (fn = target \<or> ordinal_bound os handle target aod))) \<and>
           ((\<forall>s \<in> set slots. \<not> slot_bound os handle target s) \<longrightarrow> r = 0)"
proof (cases "other_valid \<and> target \<noteq> 0")
  case False
  then have "GetIATEntry os m lib moduleName procName = Some (Inr 0)"
    using assms(1,2,3) by (auto simp add: GetIATEntry_def)
  with False show ?thesis by auto
next
  case True
  let ?p = "GetPtr lib + ucast import_rva"
  from assms(8) have ds: "descriptors_at m (GetPtr lib) ?p ds"
    and fin: "read_u32 m (?p + sizeof_IMAGE_IMPORT_DESCRIPTOR * of_nat (length ds) + off_Name) = Some 0"
    by (simp_all add: import_table_at_def)
  have "import_loop os m lib moduleName (Library_of_name os moduleName) target ?p =
          Some (Inr (first_bound_slot os handle target slots))"
    unfolding import_loop_scan [OF ds] assms(4,9) first_bound_slot_def
    by (simp add: import_loop_end [OF fin] split: option.splits)
  then have "GetIATEntry os m lib moduleName procName =
               Some (Inr (first_bound_slot os handle target slots))"
    using True assms(1,2,3,5,6,7) by (simp add: GetIATEntry_def)
  with True first_bound_slot_found [of os handle target slots]
    first_bound_slot_none [of slots os handle target]
  show ?thesis by auto
qed

theorem GetIATEntry_first_bound_slot_witness:
  "IsValid demo_memory demo_lib = Inr True \<and>
   import_table_at demo_memory 0x400000 0x401000 demo_imports \<and>
   GetIATEntry demo_platform demo_memory demo_lib ''kernel32.dll'' ''Sleep'' = Some (Inr 0x401350) \<and>
   GetIATEntry demo_platform demo_memory demo_lib ''kernel32.dll'' ''ExitProcess'' = Some (Inr 0) \<and>
   GetIATEntry demo_platform demo_memory demo_lib ''kernel32.dll'' ''NoSuchProc'' = Some (Inr 0)"
proof -
  have other: "IsValid demo_memory (Library_of_name demo_platform ''kernel32.dll'') = Inr True"
    by (simp add: demo_kernel32 demo_kernel32_valid)
  have handle: "(0x7FFA00000000 :: addr) = m_Module (Library_of_name demo_platform ''kernel32.dll'')"
    by (simp add: demo_kernel32)
  have dir: "read_u32 demo_memory (DataDirectory_VirtualAddress 0x400098 IMAGE_DIRECTORY_ENTRY_IMPORT)
               = Some 0x1000"
    by (simp add: layout_defs demo_header_fields)
  have len: "length demo_imports = 3"
    by (simp add: demo_imports_def)
  have table: "import_table_at demo_memory 0x400000 0x401000 demo_imports"
    by (simp add: import_table_at_def demo_descriptors len layout_defs demo_import_end)
  have table': "import_table_at demo_memory (GetPtr demo_lib)
                  (GetPtr demo_lib + ucast (0x1000 :: 32 word)) demo_imports"
    using table by (simp add: GetPtr_def demo_lib_def)
  have slots: "[(0x401320, 0x1410, 0x7FFA00002000), (0x401340, 0x1420, 0x7FFA00003000),
                (0x401348, 0x8000000000000010, 0x7FFA00005000),
                (0x401350, 0x1430, 0x7FFA00004000)]
               = candidate_slots (GetPtr demo_lib) (c_str ''kernel32.dll'') demo_imports"
    by (simp add: GetPtr_def demo_lib_def c_str_def demo_candidate_slots)
  have sleep: "(0x7FFA00004000 :: addr)
                 = GetProc demo_platform (Library_of_name demo_platform ''kernel32.dll'') ''Sleep''"
    and exit: "(0x7FFA00007000 :: addr)
                 = GetProc demo_platform (Library_of_name demo_platform ''kernel32.dll'') ''ExitProcess''"
    and nosuch: "(0 :: addr)
                 = GetProc demo_platform (Library_of_name demo_platform ''kernel32.dll'') ''NoSuchProc''"
    by (simp_all add: demo_kernel32 demo_GetProc)
       (simp add: GetProc_def demo_platform_def demo_GetProcAddress_def c_str_def)
  have nz: "(0x400098 :: addr) \<noteq> 0" by simp
  note w = GetIATEntry_first_bound_slot
             [OF demo_IsValid other _ handle demo_GetOptionalHeader nz dir table' slots]
  from w [OF sleep] w [OF exit] w [OF nosuch] demo_IsValid table
  show ?thesis
    by (simp add: first_bound_slot_def slot_bound_def ordinal_bound_def demo_platform_def
        demo_GetProcAddress_def)
qed

text \<open>
  C3. The scan goes through every import descriptor: a descriptor whose name matches the
  requested module name, but none of whose slots is bound to the target, does not end the
  outer loop. The loop is left early only when a bound slot is found, and then that slot
  is returned at once, whatever follows the descriptor in memory.
\<close>

theorem import_loop_scans_every_descriptor:
  assumes "descriptors_at m (GetPtr lib) p (before @ [d])"
    and "List.find (slot_bound os (m_Module other) target)
           (candidate_slots (GetPtr lib) (c_str moduleName) before) = None"
    and "same_name (dll_name d) (c_str moduleName)"
    and "List.find (slot_bound os (m_Module other) target) (slots_of (GetPtr lib) d)
           = Some (a, AddressOfData, Function)"
  shows "import_loop os m lib moduleName other target p = Some (Inr a)"
proof -
  have "candidate_slots (GetPtr lib) (c_str moduleName) (before @ [d])
          = candidate_slots (GetPtr lib) (c_str moduleName) before @ slots_of (GetPtr lib) d"
    using assms(3) by (simp add: candidate_slots_def)
  then show ?thesis
    unfolding import_loop_scan [OF assms(1)]
    using assms(2,4) by (simp add: find_append_split)
qed

theorem import_loop_scans_every_descriptor_witness:
  "same_name (dll_name (demo_imports ! 1)) ''kernel32.dll'' \<and>
   List.find (slot_bound demo_platform 0x7FFA00000000 0x7FFA00004000)
     (candidate_slots 0x400000 ''kernel32.dll'' (take 2 demo_imports)) = None \<and>
   import_loop demo_platform demo_memory demo_lib ''kernel32.dll''
     \<lparr>m_Module = 0x7FFA00000000\<rparr> 0x7FFA00004000 0x401000 = Some (Inr 0x401350)"
proof -
  have split: "demo_imports = take 2 demo_imports @ [demo_imports ! 2]"
    by (simp add: demo_imports_def)
  have ds: "descriptors_at demo_memory (GetPtr demo_lib) 0x401000
              (take 2 demo_imports @ [demo_imports ! 2])"
    using demo_descriptors split by (simp add: GetPtr_def demo_lib_def)
  have none_before: "List.find (slot_bound demo_platform (m_Module \<lparr>m_Module = 0x7FFA00000000\<rparr>)
                    0x7FFA00004000)
                  (candidate_slots (GetPtr demo_lib) (c_str ''kernel32.dll'') (take 2 demo_imports))
                 = None"
    by (simp add: candidate_slots_def demo_imports_def same_name_def tolower_def slots_of_def
        c_str_def GetPtr_def demo_lib_def slot_bound_def ordinal_bound_def demo_platform_def
        demo_GetProcAddress_def)
  have name1: "same_name (dll_name (demo_imports ! 1)) ''kernel32.dll''"
    by (simp add: demo_imports_def same_name_def tolower_def)
  have name2: "same_name (dll_name (demo_imports ! 2)) (c_str ''kernel32.dll'')"
    by (simp add: demo_imports_def same_name_def tolower_def c_str_def)
  have found: "List.find (slot_bound demo_platform (m_Module \<lparr>m_Module = 0x7FFA00000000\<rparr>)
                  0x7FFA00004000)
                (slots_of (GetPtr demo_lib) (demo_imports ! 2))
               = Some (0x401350, 0x1430, 0x7FFA00004000)"
    by (simp add: demo_imports_def slots_of_def GetPtr_def demo_lib_def slot_bound_def
        ordinal_bound_def demo_platform_def demo_GetProcAddress_def sizeof_IMAGE_THUNK_DATA_def)
  from import_loop_scans_every_descriptor [OF ds none_before name2 found] name1 none_before
  show ?thesis
    by (simp add: GetPtr_def demo_lib_def c_str_def)
qed

end
